theory Spec2Isabelle
  imports Complex_Main
begin

section \<open>The aperture load balancer of scales (scales/loadbalancer/aperture.py)\<close>

text \<open>
  Python floats are modelled as the reals of HOL and \<open>math.exp\<close> as \<^const>\<open>exp\<close>: the
  development is about the arithmetic the code writes down, not about rounding.
  Python integers are \<^typ>\<open>int\<close>.
\<close>

subsection \<open>MonoClock\<close>

text \<open>
  \<open>time.time()\<close> is the outside world: every function that reads the wall clock takes
  the reading as an argument \<open>now\<close>.
\<close>

record MonoClock =
  clock_last :: real

definition MonoClock_init :: "real \<Rightarrow> MonoClock" where
  "MonoClock_init now = \<lparr>clock_last = now\<rparr>"

definition Sample :: "MonoClock \<Rightarrow> real \<Rightarrow> real \<times> MonoClock" where
  "Sample c now =
     (let c' = (if now - clock_last c > 0 then c\<lparr>clock_last := now\<rparr> else c)
      in (clock_last c', c'))"

text \<open>The values returned by successive calls of \<open>Sample\<close>, one per wall-clock reading.\<close>

fun Samples :: "MonoClock \<Rightarrow> real list \<Rightarrow> real list" where
  "Samples c [] = []"
| "Samples c (now # rs) = (let (v, c') = Sample c now in v # Samples c' rs)"

subsection \<open>Ema\<close>

record Ema =
  ema_window :: real
  ema_time :: real
  ema_ema :: real

definition Ema_init :: "real \<Rightarrow> Ema" where
  "Ema_init window = \<lparr>ema_window = window, ema_time = - 1, ema_ema = 0\<rparr>"

text \<open>\<open>Update\<close> returns the new average together with the updated object.\<close>

definition Update :: "Ema \<Rightarrow> real \<Rightarrow> real \<Rightarrow> real \<times> Ema" where
  "Update e ts sample =
     (if ema_time e = - 1 then
        (let e' = e\<lparr>ema_time := ts, ema_ema := sample\<rparr> in (ema_ema e', e'))
      else
        (let delta = ts - ema_time e;
             e1 = e\<lparr>ema_time := ts\<rparr>;
             window = (if ema_window e1 = 0 then 0 else exp (- delta / ema_window e1));
             e' = e1\<lparr>ema_ema := (sample * (1 - window)) + (ema_ema e1 * window)\<rparr>
         in (ema_ema e', e')))"

subsection \<open>The recurrence of the specification\<close>




subsection \<open>What ApertureBalancerSink takes from outside\<close>

text \<open>
  Endpoints are opaque objects (type \<open>'e\<close>); as objects they are true in a condition, so
  \<open>any(endpoints)\<close> is non-emptiness and \<open>if endpoint:\<close> tests for \<open>None\<close>.
  A heap node is used through its \<open>endpoint\<close> and \<open>channel.is_open\<close> only.
\<close>

record 'e Node =
  endpoint :: 'e
  channel_is_open :: bool

text \<open>\<open>AsyncResult\<close>: the completed result \<open>AsyncResult.Complete()\<close>, or a handle of the base class.\<close>

datatype AsyncResult = AsyncResult_Complete | AsyncResult_Handle nat

text \<open>
  The base class \<open>HeapBalancerSink\<close> (heap.py) is not among the sources. Its methods
  \<open>_AddSink\<close> and \<open>_RemoveSink\<close>, which the sink calls through \<open>super\<close>, are parameters
  of the model: they act on the heap array \<open>self._heap[1:]\<close>, and \<open>_AddSink\<close> returns what
  the sink tests with \<open>if added_node\<close> (\<open>None\<close> for a value that is false in a condition).
  The lookup \<open>self._servers[new_endpoint]\<close> of the sink factory belongs to the same parameter.
\<close>

record 'e HeapBalancerSink =
  super_AddSink :: "'e \<Rightarrow> 'e Node list \<Rightarrow> AsyncResult option \<times> 'e Node list"
  super_RemoveSink :: "'e \<Rightarrow> 'e Node list \<Rightarrow> 'e Node list"

text \<open>
  A base class to run examples with. It keeps the heap as a plain array: a new node (with an
  open channel) is appended, a removed node is overwritten by the last one, which is then
  dropped. Nodes carry no load here, so nothing is sifted. The theorems below hold for
  every base class; this one only instantiates them.
\<close>

definition plain_AddSink :: "'e \<Rightarrow> 'e Node list \<Rightarrow> AsyncResult option \<times> 'e Node list" where
  "plain_AddSink ep h =
     (Some (AsyncResult_Handle (length h)), h @ [\<lparr>endpoint = ep, channel_is_open = True\<rparr>])"

fun plain_RemoveSink :: "'e \<Rightarrow> 'e Node list \<Rightarrow> 'e Node list" where
  "plain_RemoveSink ep [] = []"
| "plain_RemoveSink ep (n # h) =
     (if endpoint n = ep then (if h = [] then [] else last h # butlast h)
      else n # plain_RemoveSink ep h)"

definition plain_base :: "'e HeapBalancerSink" where
  "plain_base = \<lparr>super_AddSink = plain_AddSink, super_RemoveSink = plain_RemoveSink\<rparr>"

text \<open>The options record handed to the constructor, and the defaults of \<open>Builder\<close>.\<close>

record SinkProperties =
  smoothing_window :: real
  min_size :: int
  min_load :: real
  max_load :: real
  jitter_min_sec :: int
  jitter_max_sec :: int

definition Builder :: SinkProperties where
  "Builder = \<lparr>smoothing_window = 5, min_size = 1, min_load = 0.5, max_load = 2.0,
     jitter_min_sec = 120, jitter_max_sec = 240\<rparr>"

text \<open>The messages of \<open>self._log.debug\<close>, in the order they are written.\<close>

datatype 'e LogMessage = Expanding 'e | Contracting 'e

subsection \<open>ApertureBalancerSink\<close>

text \<open>
  The fields of the object. The three gauges of \<open>ApertureVarz\<close> hold the value last
  published (\<open>None\<close> before the first one); \<open>next_jitter\<close> is the time the next jitter is
  scheduled at.
\<close>

record 'e ApertureBalancerSink =
  idle_endpoints :: "'e set"
  active_endpoints :: "'e set"
  total_load :: int
  ema :: Ema
  time :: MonoClock
  sink_min_size :: int
  sink_min_load :: real
  sink_max_load :: real
  jitter_min :: int
  jitter_max :: int
  pending_endpoints :: "'e set"
  next_jitter :: "real option"
  heap :: "'e Node list"
  varz_active :: "nat option"
  varz_idle :: "nat option"
  varz_load_average :: "real option"
  log_debug :: "'e LogMessage list"

text \<open>
  \<open>_ScheduleNextJitter\<close>: \<open>randint\<close> is the value drawn by \<open>random.randint\<close> and \<open>now\<close>
  the reading of the low-resolution time source.
\<close>

definition ScheduleNextJitter ::
  "real \<Rightarrow> int \<Rightarrow> 'e ApertureBalancerSink \<Rightarrow> 'e ApertureBalancerSink" where
  "ScheduleNextJitter now randint s = s\<lparr>next_jitter := Some (now + real_of_int randint)\<rparr>"

text \<open>
  \<open>__init__\<close>: \<open>t0\<close> is the reading of \<open>time.time()\<close> taken by the new \<open>MonoClock\<close>.
  The heap of the base class starts empty.
\<close>

definition ApertureBalancerSink_init ::
  "SinkProperties \<Rightarrow> real \<Rightarrow> real \<Rightarrow> int \<Rightarrow> 'e ApertureBalancerSink" where
  "ApertureBalancerSink_init sink_properties t0 now randint =
     (let s = \<lparr>idle_endpoints = {}, active_endpoints = {}, total_load = 0,
                ema = Ema_init 5, time = MonoClock_init t0,
                sink_min_size = min_size sink_properties,
                sink_min_load = min_load sink_properties,
                sink_max_load = max_load sink_properties,
                jitter_min = jitter_min_sec sink_properties,
                jitter_max = jitter_max_sec sink_properties,
                pending_endpoints = {}, next_jitter = None, heap = [],
                varz_active = None, varz_idle = None, varz_load_average = None,
                log_debug = []\<rparr>
      in if jitter_min s > 0 then ScheduleNextJitter now randint s else s)"

definition UpdateSizeVarz :: "'e ApertureBalancerSink \<Rightarrow> 'e ApertureBalancerSink" where
  "UpdateSizeVarz s =
     s\<lparr>varz_active := Some (card (active_endpoints s)),
       varz_idle := Some (card (idle_endpoints s))\<rparr>"

definition AddSink ::
  "'e HeapBalancerSink \<Rightarrow> 'e \<Rightarrow> 'e ApertureBalancerSink \<Rightarrow> 'e ApertureBalancerSink" where
  "AddSink B ep s =
     (let num_healthy = length (filter channel_is_open (heap s))
      in if int num_healthy < sink_min_size s then
           (let s1 = s\<lparr>active_endpoints := insert ep (active_endpoints s)\<rparr>;
                (added, h) = super_AddSink B ep (heap s1)
            in UpdateSizeVarz (s1\<lparr>heap := h\<rparr>))
         else UpdateSizeVarz (s\<lparr>idle_endpoints := insert ep (idle_endpoints s)\<rparr>))"

text \<open>
  \<open>_TryExpandAperture\<close>: \<open>choice\<close> is \<open>random.choice\<close>, applied to the idle endpoints.
  The result is the returned pair together with the updated object.
\<close>

definition TryExpandAperture ::
  "'e HeapBalancerSink \<Rightarrow> ('e set \<Rightarrow> 'e) \<Rightarrow> 'e ApertureBalancerSink
     \<Rightarrow> (AsyncResult \<times> 'e option) \<times> 'e ApertureBalancerSink" where
  "TryExpandAperture B choice s =
     (if idle_endpoints s \<noteq> {} then
        (let new_endpoint = choice (idle_endpoints s);
             s1 = s\<lparr>idle_endpoints := idle_endpoints s - {new_endpoint}\<rparr>;
             s2 = s1\<lparr>active_endpoints := insert new_endpoint (active_endpoints s1)\<rparr>;
             s3 = s2\<lparr>log_debug := log_debug s2 @ [Expanding new_endpoint]\<rparr>;
             (added_node, h) = super_AddSink B new_endpoint (heap s3);
             s4 = UpdateSizeVarz (s3\<lparr>heap := h\<rparr>)
         in case added_node of
              Some ar \<Rightarrow> ((ar, Some new_endpoint), s4)
            | None \<Rightarrow> ((AsyncResult_Complete, None), s4))
      else ((AsyncResult_Complete, None), UpdateSizeVarz s))"

definition RemoveSink ::
  "'e HeapBalancerSink \<Rightarrow> ('e set \<Rightarrow> 'e) \<Rightarrow> 'e \<Rightarrow> 'e ApertureBalancerSink
     \<Rightarrow> 'e ApertureBalancerSink" where
  "RemoveSink B choice ep s =
     (let s1 = s\<lparr>heap := super_RemoveSink B ep (heap s)\<rparr>;
          s2 = (if ep \<in> active_endpoints s1 then
                  snd (TryExpandAperture B choice
                         (s1\<lparr>active_endpoints := active_endpoints s1 - {ep}\<rparr>))
                else s1);
          s3 = (if ep \<in> idle_endpoints s2 then
                  s2\<lparr>idle_endpoints := idle_endpoints s2 - {ep}\<rparr>
                else s2)
      in UpdateSizeVarz s3)"

definition ContractAperture ::
  "'e HeapBalancerSink \<Rightarrow> 'e ApertureBalancerSink \<Rightarrow> 'e ApertureBalancerSink" where
  "ContractAperture B s =
     (if int (card (active_endpoints s)) > sink_min_size s then
        (case find (\<lambda>n. endpoint n \<notin> pending_endpoints s) (heap s) of
           Some n \<Rightarrow>
             (let least_loaded_endpoint = endpoint n;
                  s1 = s\<lparr>active_endpoints := active_endpoints s - {least_loaded_endpoint}\<rparr>;
                  s2 = s1\<lparr>idle_endpoints := insert least_loaded_endpoint (idle_endpoints s1)\<rparr>;
                  s3 = s2\<lparr>heap := super_RemoveSink B least_loaded_endpoint (heap s2)\<rparr>;
                  s4 = s3\<lparr>log_debug := log_debug s3 @ [Contracting least_loaded_endpoint]\<rparr>
              in UpdateSizeVarz s4)
         | None \<Rightarrow> s)
      else s)"

definition OnNodeDown ::
  "'e HeapBalancerSink \<Rightarrow> ('e set \<Rightarrow> 'e) \<Rightarrow> 'e Node \<Rightarrow> 'e ApertureBalancerSink
     \<Rightarrow> AsyncResult \<times> 'e ApertureBalancerSink" where
  "OnNodeDown B choice node s =
     (if endpoint node \<in> active_endpoints s then
        (let ((ar, e), s') = TryExpandAperture B choice s in (ar, s'))
      else (AsyncResult_Complete, s))"

text \<open>\<open>_AdjustAperture\<close>: \<open>now\<close> is the reading of \<open>time.time()\<close> inside \<open>Sample\<close>.\<close>

definition AdjustAperture ::
  "'e HeapBalancerSink \<Rightarrow> ('e set \<Rightarrow> 'e) \<Rightarrow> real \<Rightarrow> int \<Rightarrow> 'e ApertureBalancerSink
     \<Rightarrow> 'e ApertureBalancerSink" where
  "AdjustAperture B choice now amount s =
     (let s1 = s\<lparr>total_load := total_load s + amount\<rparr>;
          (ts, clock) = Sample (time s1) now;
          (avg, e) = Update (ema s1) ts (real_of_int (total_load s1));
          s2 = s1\<lparr>time := clock, ema := e\<rparr>;
          aperture_size = card (active_endpoints s2);
          (aperture_load, s3) =
            (if aperture_size = 0 then (sink_max_load s2, s2)
             else (avg / real aperture_size,
                   s2\<lparr>varz_load_average := Some (avg / real aperture_size)\<rparr>))
      in if aperture_load \<ge> sink_max_load s3 \<and> idle_endpoints s3 \<noteq> {} then
           snd (TryExpandAperture B choice s3)
         else if aperture_load \<le> sink_min_load s3 \<and> int aperture_size > sink_min_size s3 then
           ContractAperture B s3
         else s3)"

definition OnGet ::
  "'e HeapBalancerSink \<Rightarrow> ('e set \<Rightarrow> 'e) \<Rightarrow> real \<Rightarrow> 'e Node \<Rightarrow> 'e ApertureBalancerSink
     \<Rightarrow> 'e ApertureBalancerSink" where
  "OnGet B choice now node s = AdjustAperture B choice now 1 s"

definition OnPut ::
  "'e HeapBalancerSink \<Rightarrow> ('e set \<Rightarrow> 'e) \<Rightarrow> real \<Rightarrow> 'e Node \<Rightarrow> 'e ApertureBalancerSink
     \<Rightarrow> 'e ApertureBalancerSink" where
  "OnPut B choice now node s = AdjustAperture B choice now (- 1) s"

subsection \<open>The jitter cycle\<close>

text \<open>
  \<open>ar.wait()\<close> either raises or returns, and when it has returned \<open>ar.exception\<close> is set or
  not: the outcome of the wait is an argument. \<open>_Jitter\<close> returns normally or lets the
  exception of \<open>wait\<close> pass, after the \<open>finally\<close> clause has run.

  The wait is where other calls of the sink can run, so the cycle is modelled in two
  halves: \<open>Jitter_expand\<close> runs up to \<open>ar.wait()\<close> and yields the endpoint it waits for,
  \<open>Jitter_finish\<close> runs from the return of \<open>ar.wait()\<close> to the end. \<open>Jitter\<close> is the
  cycle with nothing in between.
\<close>

datatype WaitOutcome = WaitRaises | WaitReturns (ar_exception: bool)

datatype Completion = Returned | Raised

definition Jitter_expand ::
  "'e HeapBalancerSink \<Rightarrow> ('e set \<Rightarrow> 'e) \<Rightarrow> 'e ApertureBalancerSink
     \<Rightarrow> 'e option \<times> 'e ApertureBalancerSink" where
  "Jitter_expand B choice s =
     (let ((ar, e), s1) = TryExpandAperture B choice s
      in case e of
           Some ep \<Rightarrow> (Some ep, s1\<lparr>pending_endpoints := insert ep (pending_endpoints s1)\<rparr>)
         | None \<Rightarrow> (None, s1))"

definition Jitter_finish ::
  "'e HeapBalancerSink \<Rightarrow> 'e \<Rightarrow> WaitOutcome \<Rightarrow> real \<Rightarrow> int \<Rightarrow> 'e ApertureBalancerSink
     \<Rightarrow> Completion \<times> 'e ApertureBalancerSink" where
  "Jitter_finish B ep w now randint s =
     (case w of
        WaitRaises \<Rightarrow> (Raised, ScheduleNextJitter now randint s)
      | WaitReturns exc \<Rightarrow>
          (let s1 = (if \<not> exc then ContractAperture B s else s);
               s2 = s1\<lparr>pending_endpoints := pending_endpoints s1 - {ep}\<rparr>
           in (Returned, ScheduleNextJitter now randint s2)))"

definition Jitter ::
  "'e HeapBalancerSink \<Rightarrow> ('e set \<Rightarrow> 'e) \<Rightarrow> WaitOutcome \<Rightarrow> real \<Rightarrow> int
     \<Rightarrow> 'e ApertureBalancerSink \<Rightarrow> Completion \<times> 'e ApertureBalancerSink" where
  "Jitter B choice w now randint s =
     (case Jitter_expand B choice s of
        (Some ep, s1) \<Rightarrow> Jitter_finish B ep w now randint s1
      | (None, s1) \<Rightarrow> (Returned, ScheduleNextJitter now randint s1))"

subsection \<open>Interleavings\<close>






subsection \<open>The load signal of the specification\<close>

text \<open>
  The average the control law computes at an event, and the per-node load it is compared
  with the band as: \<open>max_load\<close> for an empty aperture, the average per active endpoint
  otherwise.
\<close>

definition spec_load_average ::
  "'e ApertureBalancerSink \<Rightarrow> real \<Rightarrow> int \<Rightarrow> real" where
  "spec_load_average s now amount =
     fst (Update (ema s) (fst (Sample (time s) now)) (real_of_int (total_load s + amount)))"

definition spec_per_node_load ::
  "'e ApertureBalancerSink \<Rightarrow> real \<Rightarrow> int \<Rightarrow> real" where
  "spec_per_node_load s now amount =
     (if card (active_endpoints s) = 0 then sink_max_load s
      else spec_load_average s now amount / real (card (active_endpoints s)))"

subsection \<open>An example pool\<close>

text \<open>
  A sink with \<open>min_size = 2\<close> and the other options at their defaults, after the endpoints
  \<open>a\<close>, \<open>b\<close> and \<open>c\<close> have been added in this order: \<open>a\<close> and \<open>b\<close> are active, \<open>c\<close> is idle.
\<close>

definition example_sink :: "string ApertureBalancerSink" where
  "example_sink =
     AddSink plain_base ''c''
       (AddSink plain_base ''b''
         (AddSink plain_base ''a''
           (ApertureBalancerSink_init (Builder\<lparr>min_size := 2\<rparr>) 0 0 120)))"

text \<open>
  The same sink with \<open>min_size = 0\<close> and the single endpoint \<open>c\<close>, which is idle: the
  aperture is empty.
\<close>

definition example_empty :: "string ApertureBalancerSink" where
  "example_empty =
     AddSink plain_base ''c'' (ApertureBalancerSink_init (Builder\<lparr>min_size := 0\<rparr>) 0 0 120)"

text \<open>\<open>random.choice\<close> when it returns \<open>e\<close>.\<close>

definition draws :: "'e \<Rightarrow> 'e set \<Rightarrow> 'e" where
  "draws e S = e"

text \<open>The example pool after \<open>a\<close> has been reported down: three endpoints are active.\<close>

definition example_wide :: "string ApertureBalancerSink" where
  "example_wide =
     snd (OnNodeDown plain_base (draws ''c'') \<lparr>endpoint = ''a'', channel_is_open = False\<rparr>
            example_sink)"

subsection \<open>The invariant on the pending set\<close>


section \<open>Properties of MonoClock\<close>

lemma Sample_lower: "clock_last c \<le> fst (Sample c now)"
  by (simp add: Sample_def Let_def)

lemma Sample_state: "clock_last (snd (Sample c now)) = fst (Sample c now)"
  by (simp add: Sample_def Let_def)

lemma Samples_lower: "v \<in> set (Samples c rs) \<Longrightarrow> clock_last c \<le> v"
proof (induction rs arbitrary: c)
  case Nil
  then show ?case by simp
next
  case (Cons now rs)
  obtain u c' where S: "Sample c now = (u, c')" by (cases "Sample c now")
  have lo: "clock_last c \<le> u" using Sample_lower [of c now] S by simp
  have st: "clock_last c' = u" using Sample_state [of c now] S by simp
  from Cons.prems S have "v = u \<or> v \<in> set (Samples c' rs)" by simp
  then show ?case
  proof
    assume "v = u"
    with lo show ?thesis by simp
  next
    assume "v \<in> set (Samples c' rs)"
    then have "clock_last c' \<le> v" by (rule Cons.IH)
    with lo st show ?thesis by simp
  qed
qed

lemma Samples_sorted: "sorted (Samples c rs)"
proof (induction rs arbitrary: c)
  case Nil
  then show ?case by simp
next
  case (Cons now rs)
  obtain u c' where S: "Sample c now = (u, c')" by (cases "Sample c now")
  have st: "clock_last c' = u" using Sample_state [of c now] S by simp
  have "\<forall>v \<in> set (Samples c' rs). u \<le> v"
    using Samples_lower [of _ c' rs] st by auto
  moreover have "sorted (Samples c' rs)" by (rule Cons.IH)
  ultimately show ?case using S by simp
qed

text \<open>
  Claim C8. The values returned by \<open>Sample\<close> on one instance never decrease, whatever the
  wall clock reads. When the wall clock reads no more than it did at the previous call, the
  value returned by the previous call is returned again. On a clock constructed when the
  wall clock read no more than 10, the readings 10, 11, 10.5, 12 are answered by
  10, 11, 11, 12; and when it is the constructor that reads the 10, the readings
  11, 10.5, 12 are answered by 11, 11, 12.
\<close>

theorem MonoClock_Sample_monotone:
  "sorted (Samples c rs)
   \<and> (now2 \<le> now1 \<longrightarrow> fst (Sample (snd (Sample c now1)) now2) = fst (Sample c now1))
   \<and> (clock_last c \<le> 10 \<longrightarrow> Samples c [10, 11, 10.5, 12] = [10, 11, 11, 12])
   \<and> Samples (MonoClock_init 10) [11, 10.5, 12] = [11, 11, 12]"
proof (intro conjI impI)
  show "sorted (Samples c rs)" by (rule Samples_sorted)
next
  assume "now2 \<le> now1"
  then show "fst (Sample (snd (Sample c now1)) now2) = fst (Sample c now1)"
    by (simp add: Sample_def Let_def)
next
  assume "clock_last c \<le> 10"
  then show "Samples c [10, 11, 10.5, 12] = [10, 11, 11, 12]"
    by (auto simp add: Sample_def Let_def)
next
  show "Samples (MonoClock_init 10) [11, 10.5, 12] = [11, 11, 12]"
    by (simp add: Sample_def MonoClock_init_def Let_def)
qed

text \<open>
  The theorem of claim C8 on a clock constructed at 10: the second of two calls reads 10.5
  after 11, and the four readings of the scenario follow.
\<close>

theorem MonoClock_Sample_monotone_witness:
  "sorted (Samples (MonoClock_init 10) [10, 11, 10.5, 12])
   \<and> (10.5 :: real) \<le> 11
   \<and> fst (Sample (snd (Sample (MonoClock_init 10) 11)) 10.5) = fst (Sample (MonoClock_init 10) 11)
   \<and> clock_last (MonoClock_init 10) \<le> 10
   \<and> Samples (MonoClock_init 10) [10, 11, 10.5, 12] = [10, 11, 11, 12]"
proof -
  note T = MonoClock_Sample_monotone [of "MonoClock_init 10" "[10, 11, 10.5, 12]" "10.5" 11]
  have a: "(10.5 :: real) \<le> 11" by simp
  have b: "clock_last (MonoClock_init 10) \<le> 10" by (simp add: MonoClock_init_def)
  from T a b show ?thesis by blast
qed

section \<open>Properties of Ema\<close>




text \<open>
  Claim C9, as stated, fails for the window 0: an average with window 0 that was updated at
  time 1 with the sample 2 holds the value 2; updated again at time 1 with the sample 7 it
  returns 7.
\<close>

theorem Ema_Update_same_timestamp_counterexample:
  "ema_time (snd (Update (Ema_init 0) 1 2)) = 1
   \<and> ema_ema (snd (Update (Ema_init 0) 1 2)) = 2
   \<and> fst (Update (snd (Update (Ema_init 0) 1 2)) 1 7) = 7"
  by (simp add: Update_def Ema_init_def Let_def)

text \<open>
  Claim C9, amended. On an average that holds a timestamp (its \<open>_time\<close> is not the initial
  \<open>-1\<close>) and whose window is not 0, an update at the stored timestamp returns the stored
  value and leaves the object as it is, whatever the sample.
\<close>

theorem Ema_Update_same_timestamp:
  "ema_time e \<noteq> - 1 \<Longrightarrow> ema_window e \<noteq> 0 \<Longrightarrow> Update e (ema_time e) x = (ema_ema e, e)"
  by (simp add: Update_def Let_def)

text \<open>The theorem of claim C9 on an average with window 5, updated twice at time 1.\<close>

theorem Ema_Update_same_timestamp_witness:
  "ema_time (snd (Update (Ema_init 5) 1 2)) \<noteq> - 1
   \<and> ema_window (snd (Update (Ema_init 5) 1 2)) \<noteq> 0
   \<and> ema_time (snd (Update (Ema_init 5) 1 2)) = 1
   \<and> Update (snd (Update (Ema_init 5) 1 2)) 1 7 = (2, snd (Update (Ema_init 5) 1 2))"
proof -
  have a: "ema_time (snd (Update (Ema_init 5) 1 2)) \<noteq> - 1"
    by (simp add: Update_def Ema_init_def Let_def)
  have b: "ema_window (snd (Update (Ema_init 5) 1 2)) \<noteq> 0"
    by (simp add: Update_def Ema_init_def Let_def)
  have c: "ema_time (snd (Update (Ema_init 5) 1 2)) = 1"
    by (simp add: Update_def Ema_init_def Let_def)
  have d: "ema_ema (snd (Update (Ema_init 5) 1 2)) = 2"
    by (simp add: Update_def Ema_init_def Let_def)
  from Ema_Update_same_timestamp [OF a b, of 7] a b c d show ?thesis by simp
qed




section \<open>Properties of ApertureBalancerSink\<close>

subsection \<open>What the resize primitives change\<close>

lemma TryExpandAperture_fields:
  "active_endpoints (snd (TryExpandAperture B c s)) =
     (if idle_endpoints s \<noteq> {} then insert (c (idle_endpoints s)) (active_endpoints s)
      else active_endpoints s)"
  "idle_endpoints (snd (TryExpandAperture B c s)) = idle_endpoints s - {c (idle_endpoints s)}"
  "pending_endpoints (snd (TryExpandAperture B c s)) = pending_endpoints s"
  "log_debug (snd (TryExpandAperture B c s)) =
     (if idle_endpoints s \<noteq> {} then log_debug s @ [Expanding (c (idle_endpoints s))]
      else log_debug s)"
  "ema (snd (TryExpandAperture B c s)) = ema s"
  "time (snd (TryExpandAperture B c s)) = time s"
  "total_load (snd (TryExpandAperture B c s)) = total_load s"
  "varz_load_average (snd (TryExpandAperture B c s)) = varz_load_average s"
  "sink_min_size (snd (TryExpandAperture B c s)) = sink_min_size s"
  by (simp_all add: TryExpandAperture_def UpdateSizeVarz_def Let_def split: prod.splits option.splits)


lemma ContractAperture_fields:
  "pending_endpoints (ContractAperture B s) = pending_endpoints s"
  "ema (ContractAperture B s) = ema s"
  "time (ContractAperture B s) = time s"
  "total_load (ContractAperture B s) = total_load s"
  "varz_load_average (ContractAperture B s) = varz_load_average s"
  by (simp_all add: ContractAperture_def UpdateSizeVarz_def Let_def split: option.splits)

lemma ContractAperture_cases:
  "(active_endpoints (ContractAperture B s) = active_endpoints s
      \<and> idle_endpoints (ContractAperture B s) = idle_endpoints s
      \<and> log_debug (ContractAperture B s) = log_debug s)
   \<or> (\<exists>l. l \<notin> pending_endpoints s
        \<and> active_endpoints (ContractAperture B s) = active_endpoints s - {l}
        \<and> idle_endpoints (ContractAperture B s) = insert l (idle_endpoints s)
        \<and> log_debug (ContractAperture B s) = log_debug s @ [Contracting l])"
proof (cases "int (card (active_endpoints s)) > sink_min_size s")
  case False
  then show ?thesis by (simp add: ContractAperture_def)
next
  case True
  show ?thesis
  proof (cases "find (\<lambda>n. endpoint n \<notin> pending_endpoints s) (heap s)")
    case None
    with True show ?thesis by (simp add: ContractAperture_def)
  next
    case (Some n)
    then have "endpoint n \<notin> pending_endpoints s" by (auto simp add: find_Some_iff)
    with True Some show ?thesis
      by (auto simp add: ContractAperture_def UpdateSizeVarz_def Let_def)
  qed
qed


lemma OnNodeDown_unfold:
  "OnNodeDown B c node s =
     (if endpoint node \<in> active_endpoints s then
        (fst (fst (TryExpandAperture B c s)), snd (TryExpandAperture B c s))
      else (AsyncResult_Complete, s))"
  by (simp add: OnNodeDown_def split_beta)

subsection \<open>The examples, evaluated\<close>

lemmas sink_defs = AddSink_def RemoveSink_def TryExpandAperture_def ContractAperture_def
  OnNodeDown_def AdjustAperture_def OnGet_def OnPut_def Jitter_expand_def Jitter_finish_def Jitter_def
  ScheduleNextJitter_def UpdateSizeVarz_def plain_base_def plain_AddSink_def draws_def Let_def
  ApertureBalancerSink_init_def Builder_def

lemma example_sink_eq:
  "example_sink =
     \<lparr>idle_endpoints = {''c''}, active_endpoints = {''a'', ''b''}, total_load = 0,
      ema = Ema_init 5, time = MonoClock_init 0,
      sink_min_size = 2, sink_min_load = 0.5, sink_max_load = 2,
      jitter_min = 120, jitter_max = 240,
      pending_endpoints = {}, next_jitter = Some 120,
      heap = [\<lparr>endpoint = ''a'', channel_is_open = True\<rparr>,
              \<lparr>endpoint = ''b'', channel_is_open = True\<rparr>],
      varz_active = Some 2, varz_idle = Some 1, varz_load_average = None,
      log_debug = []\<rparr>"
  by (simp add: example_sink_def sink_defs insert_commute)

lemma example_empty_fields:
  "active_endpoints example_empty = {}"
  "idle_endpoints example_empty = {''c''}"
  "sink_max_load example_empty = 2"
  by (simp_all add: example_empty_def sink_defs)

lemma example_wide_fields:
  "active_endpoints example_wide = {''a'', ''b'', ''c''}"
  "idle_endpoints example_wide = {}"
  "sink_max_load example_wide = 2"
  "sink_min_load example_wide = 0.5"
  "sink_min_size example_wide = 2"
  "ema example_wide = Ema_init 5"
  "time example_wide = MonoClock_init 0"
  "total_load example_wide = 0"
  by (auto simp add: example_wide_def example_sink_eq sink_defs)

subsection \<open>Node down\<close>

text \<open>\<open>_OnNodeDown\<close> never takes an endpoint out of the active set.\<close>

lemma OnNodeDown_active_grows:
  "active_endpoints s \<subseteq> active_endpoints (snd (OnNodeDown B c node s))"
  by (auto simp add: OnNodeDown_unfold TryExpandAperture_fields)

text \<open>
  Claim C1, on the code. In the example pool (\<open>a\<close> and \<open>b\<close> active, \<open>c\<close> idle) the node of \<open>a\<close>
  is reported down and \<open>random.choice\<close> returns \<open>c\<close>. \<open>_OnNodeDown\<close> expands the aperture and
  returns the handle of the expansion, but it does not discard \<open>a\<close>: afterwards \<open>a\<close>, \<open>b\<close> and
  \<open>c\<close> are active, three endpoints, and no endpoint is idle.
\<close>

theorem OnNodeDown_keeps_endpoint:
  "fst (OnNodeDown plain_base (draws ''c'') \<lparr>endpoint = ''a'', channel_is_open = False\<rparr>
        example_sink) = AsyncResult_Handle 2
   \<and> active_endpoints
     (snd (OnNodeDown plain_base (draws ''c'') \<lparr>endpoint = ''a'', channel_is_open = False\<rparr>
        example_sink)) = {''a'', ''b'', ''c''}
   \<and> card (active_endpoints
     (snd (OnNodeDown plain_base (draws ''c'') \<lparr>endpoint = ''a'', channel_is_open = False\<rparr>
        example_sink))) = 3
   \<and> idle_endpoints
     (snd (OnNodeDown plain_base (draws ''c'') \<lparr>endpoint = ''a'', channel_is_open = False\<rparr>
        example_sink)) = {}"
  by (auto simp add: example_sink_eq sink_defs)

subsection \<open>The jitter cycle\<close>

text \<open>
  What a cycle that has expanded by \<open>ep\<close> does to the pending set: when \<open>ar.wait()\<close>
  returns, with or without \<open>ar.exception\<close>, \<open>ep\<close> is not pending afterwards; when it raises,
  \<open>ep\<close> is.
\<close>

lemma Jitter_return_clears_pending:
  "fst (Jitter_expand B c s) = Some ep \<Longrightarrow>
   ep \<notin> pending_endpoints (snd (Jitter B c (WaitReturns exc) now r s))"
  by (cases "Jitter_expand B c s")
    (simp add: Jitter_def Jitter_finish_def ScheduleNextJitter_def Let_def)

lemma Jitter_raise_leaves_pending:
  "fst (Jitter_expand B c s) = Some ep \<Longrightarrow>
   ep \<in> pending_endpoints (snd (Jitter B c WaitRaises now r s))"
  by (cases "Jitter_expand B c s")
    (auto simp add: Jitter_def Jitter_finish_def Jitter_expand_def ScheduleNextJitter_def
      split_beta split: option.splits)

text \<open>
  Claim C2, on the code. In the example pool a jitter cycle expands the aperture by \<open>c\<close> and
  \<open>ar.wait()\<close> raises. The exception leaves \<open>_Jitter\<close> after the \<open>finally\<close> clause has
  rescheduled the jitter, and \<open>c\<close> is still pending.
\<close>

theorem Jitter_wait_raises_keeps_pending:
  "fst (Jitter plain_base (draws ''c'') WaitRaises 0 120 example_sink) = Raised
   \<and> pending_endpoints (snd (Jitter plain_base (draws ''c'') WaitRaises 0 120 example_sink))
       = {''c''}
   \<and> next_jitter (snd (Jitter plain_base (draws ''c'') WaitRaises 0 120 example_sink))
       = Some 120"
  by (simp add: example_sink_eq sink_defs)

subsection \<open>The constructor\<close>

text \<open>
  Claim C4, on the code. Constructed with the option \<open>smoothing_window = 10\<close>, the sink has an
  average whose window is 5.
\<close>

theorem init_ignores_smoothing_window:
  "smoothing_window (Builder\<lparr>smoothing_window := 10\<rparr>) = 10
   \<and> ema_window (ema (ApertureBalancerSink_init (Builder\<lparr>smoothing_window := 10\<rparr>) 0 0 120
        :: string ApertureBalancerSink)) = 5"
  by (simp add: sink_defs Ema_init_def)

subsection \<open>The pending set and the active set\<close>













subsection \<open>The control law\<close>

text \<open>
  Claim C5, as stated, fails. The first event of the example pool is a put: the load
  counter becomes \<open>-1\<close>, and \<open>-1\<close> is the sample the average is updated with (a first update
  stores its sample).
\<close>

theorem AdjustAperture_sample_counterexample:
  "total_load (OnPut plain_base (draws ''c'') 1 \<lparr>endpoint = ''a'', channel_is_open = True\<rparr>
      example_sink) = - 1
   \<and> ema_ema (ema (OnPut plain_base (draws ''c'') 1 \<lparr>endpoint = ''a'', channel_is_open = True\<rparr>
      example_sink)) = - 1"
  by (simp add: example_sink_eq sink_defs Ema_init_def MonoClock_init_def Update_def Sample_def)

text \<open>
  Claim C5, amended. At every get and put the load counter is changed by the amount of the
  event and the average is updated with the counter as it then is, negative or not, at the
  time the clock returns.
\<close>

theorem AdjustAperture_sample_unclamped:
  "total_load (AdjustAperture B c now amount s) = total_load s + amount
   \<and> ema (AdjustAperture B c now amount s)
       = snd (Update (ema s) (fst (Sample (time s) now)) (real_of_int (total_load s + amount)))"
  by (simp add: AdjustAperture_def Let_def split_beta TryExpandAperture_fields
      ContractAperture_fields)

lemma AdjustAperture_unfold:
  "AdjustAperture B c now amount s =
     (let s2 = s\<lparr>total_load := total_load s + amount,
                  time := snd (Sample (time s) now),
                  ema := snd (Update (ema s) (fst (Sample (time s) now))
                                (real_of_int (total_load s + amount)))\<rparr>;
          s3 = (if card (active_endpoints s) = 0 then s2
                else s2\<lparr>varz_load_average := Some (spec_per_node_load s now amount)\<rparr>)
      in if spec_per_node_load s now amount \<ge> sink_max_load s \<and> idle_endpoints s \<noteq> {} then
           snd (TryExpandAperture B c s3)
         else if spec_per_node_load s now amount \<le> sink_min_load s
                   \<and> int (card (active_endpoints s)) > sink_min_size s then
           ContractAperture B s3
         else s3)"
  by (simp add: AdjustAperture_def spec_per_node_load_def spec_load_average_def Let_def split_beta)

text \<open>
  Claim C6. An event of amount \<open>+1\<close> or \<open>-1\<close> (or any other) writes at most one resize to
  the log. With \<open>L\<close> the per-node load of the event: when \<open>L \<ge> max_load\<close> and an endpoint
  is idle, the aperture is expanded by the endpoint \<open>random.choice\<close> returns, and by nothing
  else; otherwise, when \<open>L \<le> min_load\<close> and more than \<open>min_size\<close> endpoints are active,
  either nothing changes or one endpoint that is not pending moves from active to idle; in
  every other case the two sets and the log stay as they are. For an empty aperture \<open>L\<close> is
  \<open>max_load\<close> and the gauge \<open>load_average\<close> keeps its value; otherwise \<open>L\<close> is the average
  per active endpoint and is published to the gauge.
\<close>

theorem AdjustAperture_one_resize:
  "(let s' = AdjustAperture B c now amount s; L = spec_per_node_load s now amount
    in (\<exists>m. log_debug s' = log_debug s @ m \<and> length m \<le> 1)
     \<and> (L \<ge> sink_max_load s \<and> idle_endpoints s \<noteq> {} \<longrightarrow>
          log_debug s' = log_debug s @ [Expanding (c (idle_endpoints s))]
          \<and> active_endpoints s' = insert (c (idle_endpoints s)) (active_endpoints s)
          \<and> idle_endpoints s' = idle_endpoints s - {c (idle_endpoints s)})
     \<and> (\<not> (L \<ge> sink_max_load s \<and> idle_endpoints s \<noteq> {})
          \<and> L \<le> sink_min_load s \<and> int (card (active_endpoints s)) > sink_min_size s \<longrightarrow>
          (log_debug s' = log_debug s \<and> active_endpoints s' = active_endpoints s
             \<and> idle_endpoints s' = idle_endpoints s)
          \<or> (\<exists>l. l \<notin> pending_endpoints s
                \<and> log_debug s' = log_debug s @ [Contracting l]
                \<and> active_endpoints s' = active_endpoints s - {l}
                \<and> idle_endpoints s' = insert l (idle_endpoints s)))
     \<and> (\<not> (L \<ge> sink_max_load s \<and> idle_endpoints s \<noteq> {})
          \<and> \<not> (L \<le> sink_min_load s \<and> int (card (active_endpoints s)) > sink_min_size s) \<longrightarrow>
          log_debug s' = log_debug s \<and> active_endpoints s' = active_endpoints s
          \<and> idle_endpoints s' = idle_endpoints s)
     \<and> (card (active_endpoints s) = 0 \<longrightarrow>
          L = sink_max_load s \<and> varz_load_average s' = varz_load_average s)
     \<and> (card (active_endpoints s) \<noteq> 0 \<longrightarrow>
          L = spec_load_average s now amount / real (card (active_endpoints s))
          \<and> varz_load_average s' = Some L))"
proof -
  define s2 where "s2 = s\<lparr>total_load := total_load s + amount,
                  time := snd (Sample (time s) now),
                  ema := snd (Update (ema s) (fst (Sample (time s) now))
                                (real_of_int (total_load s + amount)))\<rparr>"
  define s3 where "s3 = (if card (active_endpoints s) = 0 then s2
                else s2\<lparr>varz_load_average := Some (spec_per_node_load s now amount)\<rparr>)"
  define L where "L = spec_per_node_load s now amount"
  define s' where "s' = AdjustAperture B c now amount s"
  have s3: "active_endpoints s3 = active_endpoints s" "idle_endpoints s3 = idle_endpoints s"
    "log_debug s3 = log_debug s" "pending_endpoints s3 = pending_endpoints s"
    "varz_load_average s3 = (if card (active_endpoints s) = 0 then varz_load_average s else Some L)"
    by (simp_all add: s3_def s2_def L_def)
  have s': "s' = (if L \<ge> sink_max_load s \<and> idle_endpoints s \<noteq> {} then
                    snd (TryExpandAperture B c s3)
                  else if L \<le> sink_min_load s
                   \<and> int (card (active_endpoints s)) > sink_min_size s then
                    ContractAperture B s3
                  else s3)"
    unfolding s'_def L_def s3_def s2_def AdjustAperture_unfold Let_def by (rule refl)
  have C: "(log_debug (ContractAperture B s3) = log_debug s
             \<and> active_endpoints (ContractAperture B s3) = active_endpoints s
             \<and> idle_endpoints (ContractAperture B s3) = idle_endpoints s)
          \<or> (\<exists>l. l \<notin> pending_endpoints s
                \<and> log_debug (ContractAperture B s3) = log_debug s @ [Contracting l]
                \<and> active_endpoints (ContractAperture B s3) = active_endpoints s - {l}
                \<and> idle_endpoints (ContractAperture B s3) = insert l (idle_endpoints s))"
    using ContractAperture_cases [of B s3] by (auto simp add: s3)
  have 1: "\<exists>m. log_debug s' = log_debug s @ m \<and> length m \<le> 1"
    using C by (auto simp add: s' s3 TryExpandAperture_fields)
  have 2: "L \<ge> sink_max_load s \<and> idle_endpoints s \<noteq> {} \<longrightarrow>
          log_debug s' = log_debug s @ [Expanding (c (idle_endpoints s))]
          \<and> active_endpoints s' = insert (c (idle_endpoints s)) (active_endpoints s)
          \<and> idle_endpoints s' = idle_endpoints s - {c (idle_endpoints s)}"
    by (simp add: s' s3 TryExpandAperture_fields)
  have 3: "\<not> (L \<ge> sink_max_load s \<and> idle_endpoints s \<noteq> {})
          \<and> L \<le> sink_min_load s \<and> int (card (active_endpoints s)) > sink_min_size s \<longrightarrow>
          (log_debug s' = log_debug s \<and> active_endpoints s' = active_endpoints s
             \<and> idle_endpoints s' = idle_endpoints s)
          \<or> (\<exists>l. l \<notin> pending_endpoints s
                \<and> log_debug s' = log_debug s @ [Contracting l]
                \<and> active_endpoints s' = active_endpoints s - {l}
                \<and> idle_endpoints s' = insert l (idle_endpoints s))"
    using C by (simp add: s')
  have 4: "\<not> (L \<ge> sink_max_load s \<and> idle_endpoints s \<noteq> {})
          \<and> \<not> (L \<le> sink_min_load s \<and> int (card (active_endpoints s)) > sink_min_size s) \<longrightarrow>
          log_debug s' = log_debug s \<and> active_endpoints s' = active_endpoints s
          \<and> idle_endpoints s' = idle_endpoints s"
    by (auto simp add: s' s3)
  have v: "varz_load_average s' = varz_load_average s3"
    by (simp add: s' TryExpandAperture_fields ContractAperture_fields)
  have 5: "card (active_endpoints s) = 0 \<longrightarrow>
          L = sink_max_load s \<and> varz_load_average s' = varz_load_average s"
    by (simp add: v s3 L_def spec_per_node_load_def)
  have 6: "card (active_endpoints s) \<noteq> 0 \<longrightarrow>
          L = spec_load_average s now amount / real (card (active_endpoints s))
          \<and> varz_load_average s' = Some L"
    by (simp add: v s3) (simp add: L_def spec_per_node_load_def)
  from 1 2 3 4 5 6 show ?thesis
    unfolding Let_def s'_def [symmetric] L_def [symmetric] by blast
qed


text \<open>
  The theorem of claim C6 on two first events, both a get at time 1: on the empty aperture
  with \<open>c\<close> idle, which is expanded by \<open>c\<close> with no gauge published; and on the pool with
  three active endpoints and \<open>min_size = 2\<close>, where the per-node load is a third and the
  contraction branch is taken.
\<close>

theorem AdjustAperture_one_resize_witness:
  "card (active_endpoints example_empty) = 0
   \<and> spec_per_node_load example_empty 1 1 \<ge> sink_max_load example_empty
   \<and> idle_endpoints example_empty \<noteq> {}
   \<and> log_debug (AdjustAperture plain_base (draws ''c'') 1 1 example_empty)
       = log_debug example_empty @ [Expanding ''c'']
   \<and> active_endpoints (AdjustAperture plain_base (draws ''c'') 1 1 example_empty) = {''c''}
   \<and> idle_endpoints (AdjustAperture plain_base (draws ''c'') 1 1 example_empty) = {}
   \<and> varz_load_average (AdjustAperture plain_base (draws ''c'') 1 1 example_empty)
       = varz_load_average example_empty
   \<and> card (active_endpoints example_wide) = 3
   \<and> spec_per_node_load example_wide 1 1 = 1 / 3
   \<and> idle_endpoints example_wide = {}
   \<and> sink_min_load example_wide = 0.5
   \<and> sink_min_size example_wide = 2
   \<and> varz_load_average (AdjustAperture plain_base (draws ''c'') 1 1 example_wide) = Some (1 / 3)
   \<and> ((log_debug (AdjustAperture plain_base (draws ''c'') 1 1 example_wide)
          = log_debug example_wide
        \<and> active_endpoints (AdjustAperture plain_base (draws ''c'') 1 1 example_wide)
          = active_endpoints example_wide
        \<and> idle_endpoints (AdjustAperture plain_base (draws ''c'') 1 1 example_wide)
          = idle_endpoints example_wide)
      \<or> (\<exists>l. l \<notin> pending_endpoints example_wide
            \<and> log_debug (AdjustAperture plain_base (draws ''c'') 1 1 example_wide)
              = log_debug example_wide @ [Contracting l]
            \<and> active_endpoints (AdjustAperture plain_base (draws ''c'') 1 1 example_wide)
              = active_endpoints example_wide - {l}
            \<and> idle_endpoints (AdjustAperture plain_base (draws ''c'') 1 1 example_wide)
              = insert l (idle_endpoints example_wide)))"
proof -
  note T1 = AdjustAperture_one_resize [of plain_base "draws ''c''" 1 1 example_empty,
      unfolded Let_def]
  note T2 = AdjustAperture_one_resize [of plain_base "draws ''c''" 1 1 example_wide,
      unfolded Let_def]
  have e0: "card (active_endpoints example_empty) = 0"
    by (simp add: example_empty_fields)
  have e1: "spec_per_node_load example_empty 1 1 \<ge> sink_max_load example_empty"
    by (simp add: spec_per_node_load_def example_empty_fields)
  have e2: "idle_endpoints example_empty \<noteq> {}"
    by (simp add: example_empty_fields)
  from T1 e1 e2 have r1:
    "log_debug (AdjustAperture plain_base (draws ''c'') 1 1 example_empty)
       = log_debug example_empty @ [Expanding (draws ''c'' (idle_endpoints example_empty))]
     \<and> active_endpoints (AdjustAperture plain_base (draws ''c'') 1 1 example_empty)
       = insert (draws ''c'' (idle_endpoints example_empty)) (active_endpoints example_empty)
     \<and> idle_endpoints (AdjustAperture plain_base (draws ''c'') 1 1 example_empty)
       = idle_endpoints example_empty - {draws ''c'' (idle_endpoints example_empty)}"
    by blast
  from T1 e0 have r2:
    "varz_load_average (AdjustAperture plain_base (draws ''c'') 1 1 example_empty)
       = varz_load_average example_empty"
    by blast
  have w0: "card (active_endpoints example_wide) = 3"
    by (simp add: example_wide_fields)
  have w1: "spec_per_node_load example_wide 1 1 = 1 / 3"
    by (simp add: spec_per_node_load_def spec_load_average_def example_wide_fields Update_def Sample_def
        Ema_init_def MonoClock_init_def)
  from w0 have w2: "card (active_endpoints example_wide) \<noteq> 0" by simp
  from T2 w2 have r3:
    "varz_load_average (AdjustAperture plain_base (draws ''c'') 1 1 example_wide)
       = Some (spec_per_node_load example_wide 1 1)"
    by blast
  have w3: "\<not> (spec_per_node_load example_wide 1 1 \<ge> sink_max_load example_wide
               \<and> idle_endpoints example_wide \<noteq> {})"
    by (simp add: example_wide_fields)
  have w4: "spec_per_node_load example_wide 1 1 \<le> sink_min_load example_wide
            \<and> int (card (active_endpoints example_wide)) > sink_min_size example_wide"
    by (simp add: w0 w1 example_wide_fields)
  from T2 w3 w4 have r4:
    "(log_debug (AdjustAperture plain_base (draws ''c'') 1 1 example_wide)
          = log_debug example_wide
        \<and> active_endpoints (AdjustAperture plain_base (draws ''c'') 1 1 example_wide)
          = active_endpoints example_wide
        \<and> idle_endpoints (AdjustAperture plain_base (draws ''c'') 1 1 example_wide)
          = idle_endpoints example_wide)
      \<or> (\<exists>l. l \<notin> pending_endpoints example_wide
            \<and> log_debug (AdjustAperture plain_base (draws ''c'') 1 1 example_wide)
              = log_debug example_wide @ [Contracting l]
            \<and> active_endpoints (AdjustAperture plain_base (draws ''c'') 1 1 example_wide)
              = active_endpoints example_wide - {l}
            \<and> idle_endpoints (AdjustAperture plain_base (draws ''c'') 1 1 example_wide)
              = insert l (idle_endpoints example_wide))"
    by blast
  from r1 have r1': "log_debug (AdjustAperture plain_base (draws ''c'') 1 1 example_empty)
       = log_debug example_empty @ [Expanding ''c'']
   \<and> active_endpoints (AdjustAperture plain_base (draws ''c'') 1 1 example_empty) = {''c''}
   \<and> idle_endpoints (AdjustAperture plain_base (draws ''c'') 1 1 example_empty) = {}"
    by (simp add: draws_def example_empty_fields)
  from r3 have r3': "varz_load_average (AdjustAperture plain_base (draws ''c'') 1 1 example_wide)
       = Some (1 / 3)"
    by (simp add: w1)
  have w5: "idle_endpoints example_wide = {}" "sink_min_load example_wide = 0.5"
    "sink_min_size example_wide = 2"
    by (simp_all add: example_wide_fields)
  from e0 e1 e2 r1' r2 w0 w1 w5 r3' r4 show ?thesis by blast
qed

end
